theory Spec2Isabelle
  imports Main "HOL-Library.Word"
begin

unbundle bit_operations_syntax

section \<open>The i.MX8MM thermal monitor unit driver\<close>

text \<open>
  A shallow embedding of \<^verbatim>\<open>drivers/thermal/imx8mm_thermal.c\<close>. C's \<^verbatim>\<open>u32\<close> is a
  32-bit word, C's \<^verbatim>\<open>int\<close> a 32-bit word read as two's complement through \<open>sint\<close>
  (the synonym \<open>s32\<close> marks where the source has an \<^verbatim>\<open>int\<close>). The kernel is
  built with \<^verbatim>\<open>-fno-strict-overflow\<close>, so signed arithmetic wraps around like unsigned
  arithmetic does, which is what the word operations compute.
\<close>

type_synonym u32 = "32 word"
type_synonym s32 = "32 word"

subsection \<open>Constants\<close>

definition TER :: nat where "TER = 0x0"
definition TSCR :: nat where "TSCR = 0x1c"
definition TRITSR :: nat where "TRITSR = 0x20"

definition TER_EN :: u32 where "TER_EN = push_bit 31 1"
definition TEMP_VAL_MASK :: u32 where "TEMP_VAL_MASK = 0xff"

definition TEMP_LOW_LIMIT :: u32 where "TEMP_LOW_LIMIT = 10"
definition OCOTP_TMU_CALIB :: nat where "OCOTP_TMU_CALIB = 0x04f0"

definition IMX_TEMP_PASSIVE_COOL_DELTA :: s32 where "IMX_TEMP_PASSIVE_COOL_DELTA = 10000"

text \<open>\<^verbatim>\<open>enum imx_thermal_trip\<close>; the callbacks take the selector as an \<^verbatim>\<open>int\<close>.\<close>

definition IMX_TRIP_PASSIVE :: s32 where "IMX_TRIP_PASSIVE = 0"
definition IMX_TRIP_CRITICAL :: s32 where "IMX_TRIP_CRITICAL = 1"
definition IMX_TRIP_NUM :: s32 where "IMX_TRIP_NUM = 2"

text \<open>
  Modelled from the spec: the error numbers of \<^verbatim>\<open>errno-base.h\<close> (\<^verbatim>\<open>EAGAIN\<close> is the
  spec's NotReady) are not under src/; they have their Linux values.
\<close>

definition EAGAIN :: s32 where "EAGAIN = 11"
definition ENOMEM :: s32 where "ENOMEM = 12"
definition ENODEV :: s32 where "ENODEV = 19"
definition EPROBE_DEFER :: s32 where "EPROBE_DEFER = 517"

text \<open>
  Modelled from the spec: \<^verbatim>\<open>enum thermal_trend\<close> of \<^verbatim>\<open>linux/thermal.h\<close> is not under
  src/. The source writes \<open>THERMAL_TREND_RAISE_FULL\<close> (the spec's RisingFast) and
  \<open>THERMAL_TREND_DROP_FULL\<close> (its FallingFast); \<open>THERMAL_TREND_STABLE\<close> is the spec's
  Stable/Unknown, and the two other values are the header's.
\<close>

datatype thermal_trend =
  THERMAL_TREND_STABLE
| THERMAL_TREND_RAISING
| THERMAL_TREND_DROPPING
| THERMAL_TREND_RAISE_FULL
| THERMAL_TREND_DROP_FULL

subsection \<open>The kernel state the driver acts on\<close>

text \<open>
  The two register windows the driver maps, and what it does to the outside world, in
  order: register reads and writes, sleeps, unmappings, and the calls of collaborators
  that return nothing. Registers are volatile: \<open>mmio k t b off\<close> is what a read of offset
  \<open>off\<close> in window \<open>b\<close> returns when \<open>t\<close> events have happened, so two reads of one
  register may differ. The log keeps the level and the format string of each message.
\<close>

datatype iomem = TMU_BASE | OCOTP_BASE

datatype io_event =
  Readl iomem nat
| Writel iomem nat u32
| Msleep nat
| Iounmap iomem
| Call string

datatype loglevel = KERN_ERR | KERN_WARNING | KERN_INFO

record kernel =
  mmio :: "nat \<Rightarrow> iomem \<Rightarrow> nat \<Rightarrow> u32"
  trace :: "io_event list"
  dmesg :: "(loglevel \<times> string) list"

definition emit :: "io_event \<Rightarrow> kernel \<Rightarrow> kernel" where
  "emit e k = k\<lparr>trace := trace k @ [e]\<rparr>"

definition readl_relaxed :: "iomem \<Rightarrow> nat \<Rightarrow> kernel \<Rightarrow> u32 \<times> kernel" where
  "readl_relaxed b off k = (mmio k (length (trace k)) b off, emit (Readl b off) k)"

definition writel_relaxed :: "u32 \<Rightarrow> iomem \<Rightarrow> nat \<Rightarrow> kernel \<Rightarrow> kernel" where
  "writel_relaxed v b off k = emit (Writel b off v) k"

definition msleep :: "nat \<Rightarrow> kernel \<Rightarrow> kernel" where
  "msleep ms k = emit (Msleep ms) k"

definition iounmap :: "iomem \<Rightarrow> kernel \<Rightarrow> kernel" where
  "iounmap b k = emit (Iounmap b) k"

definition call :: "string \<Rightarrow> kernel \<Rightarrow> kernel" where
  "call f k = emit (Call f) k"

definition printk :: "loglevel \<Rightarrow> string \<Rightarrow> kernel \<Rightarrow> kernel" where
  "printk l m k = k\<lparr>dmesg := dmesg k @ [(l, m)]\<rparr>"

definition dev_err :: "string \<Rightarrow> kernel \<Rightarrow> kernel" where
  "dev_err m k = printk KERN_ERR m k"

definition dev_warn :: "string \<Rightarrow> kernel \<Rightarrow> kernel" where
  "dev_warn m k = printk KERN_WARNING m k"

definition dev_info :: "string \<Rightarrow> kernel \<Rightarrow> kernel" where
  "dev_info m k = printk KERN_INFO m k"

subsection \<open>The driver's data\<close>

text \<open>
  Of \<^verbatim>\<open>struct thermal_zone_device\<close> the driver reads \<^verbatim>\<open>temperature\<close> and writes
  \<^verbatim>\<open>tzp->no_hwmon\<close>. Pointers are options, \<open>None\<close> the null pointer.
\<close>

record thermal_zone_device =
  temperature :: s32
  no_hwmon :: bool

record imx8mm_tmu =
  tzd :: "thermal_zone_device option"
  cdev :: "nat option"
  clk :: "nat option"
  tmu_base :: "iomem option"
  enabled :: bool
  do_calib :: bool
  temp_passive :: s32
  temp_critical :: s32
  fuse_calib_val :: u32

text \<open>What \<^verbatim>\<open>devm_kzalloc\<close> returns: every field zero.\<close>

definition kzalloc_tmu :: imx8mm_tmu where
  "kzalloc_tmu = \<lparr>tzd = None, cdev = None, clk = None, tmu_base = None, enabled = False,
     do_calib = False, temp_passive = 0, temp_critical = 0, fuse_calib_val = 0\<rparr>"

subsection \<open>Reading the temperature\<close>

text \<open>
  \<^verbatim>\<open>imx8mm_get_calibrate_temp(tmu, &val)\<close>: the value behind \<^verbatim>\<open>val\<close> goes in and comes
  out. The arithmetic is \<^verbatim>\<open>u32\<close> arithmetic.
\<close>

definition imx8mm_get_calibrate_temp :: "imx8mm_tmu \<Rightarrow> u32 \<Rightarrow> kernel \<Rightarrow> u32 \<times> kernel" where
  "imx8mm_get_calibrate_temp tmu val k =
     (if do_calib tmu then
        (let (r, k1) = readl_relaxed TMU_BASE TSCR k;
             raw_val = r AND TEMP_VAL_MASK
         in (raw_val - fuse_calib_val tmu + 25, k1))
      else (val, k))"

text \<open>
  \<^verbatim>\<open>tmu_get_temp(data, &temp)\<close> returns its return value, what \<^verbatim>\<open>*temp\<close> holds
  afterwards (\<open>temp\<close> is what it held before) and the kernel state. \<^verbatim>\<open>val * 1000\<close> is a
  \<^verbatim>\<open>u32\<close> product, stored into an \<^verbatim>\<open>int\<close> with the same bits.
\<close>

definition tmu_get_temp :: "imx8mm_tmu \<Rightarrow> s32 \<Rightarrow> kernel \<Rightarrow> s32 \<times> s32 \<times> kernel" where
  "tmu_get_temp tmu temp k =
     (let (r, k1) = readl_relaxed TMU_BASE TRITSR k;
          val = r AND TEMP_VAL_MASK;
          (val, k2) = imx8mm_get_calibrate_temp tmu val k1
      in if val < TEMP_LOW_LIMIT then
           (let k3 = msleep 10 k2;
                (r, k4) = readl_relaxed TMU_BASE TRITSR k3;
                val = r AND TEMP_VAL_MASK;
                (val, k5) = imx8mm_get_calibrate_temp tmu val k4
            in if val < TEMP_LOW_LIMIT then (- EAGAIN, temp, k5)
               else (0, val * 1000, k5))
         else (0, val * 1000, k2))"

subsection \<open>Trip points and trend\<close>

text \<open>
  \<^verbatim>\<open>tmu_get_trend(p, trip, &trend)\<close> returns its return value and what \<^verbatim>\<open>*trend\<close> holds
  afterwards; \<open>trend\<close> is what it held before the call. The comparison is a signed one.
\<close>

definition tmu_get_trend :: "imx8mm_tmu \<Rightarrow> s32 \<Rightarrow> thermal_trend \<Rightarrow> s32 \<times> thermal_trend" where
  "tmu_get_trend tmu trip trend =
     (case tzd tmu of
        None \<Rightarrow> (0, trend)
      | Some tz \<Rightarrow>
          (let trip_temp = (if trip = IMX_TRIP_PASSIVE then temp_passive tmu else temp_critical tmu)
           in if sint (trip_temp - IMX_TEMP_PASSIVE_COOL_DELTA) \<le> sint (temperature tz)
              then (0, THERMAL_TREND_RAISE_FULL)
              else (0, THERMAL_TREND_DROP_FULL)))"

definition tmu_set_trip_temp :: "imx8mm_tmu \<Rightarrow> s32 \<Rightarrow> s32 \<Rightarrow> s32 \<times> imx8mm_tmu" where
  "tmu_set_trip_temp tmu trip temp =
     (let tmu1 = (if trip = IMX_TRIP_CRITICAL then tmu\<lparr>temp_critical := temp\<rparr> else tmu);
          tmu2 = (if trip = IMX_TRIP_PASSIVE then tmu1\<lparr>temp_passive := temp\<rparr> else tmu1)
      in (0, tmu2))"

subsection \<open>Probing the device\<close>

text \<open>
  What the collaborators of \<^verbatim>\<open>imx8mm_tmu_probe\<close> answer for a platform device, in the
  order the probe asks them. A call that returns a pointer or an error pointer is a sum,
  \<open>Inl\<close> carrying what \<^verbatim>\<open>PTR_ERR\<close> gives; a call that returns an \<^verbatim>\<open>int\<close> is that
  \<^verbatim>\<open>int\<close>. The content of the fuse is a register of the \<open>OCOTP_BASE\<close> window.
\<close>

record platform_device =
  of_node :: bool
  devm_kzalloc :: bool
  of_iomap_tmu :: bool
  devm_clk_get :: "s32 + nat"
  devm_thermal_zone_of_sensor_register :: "s32 + thermal_zone_device"
  devfreq_cooling_register :: "s32 + nat"
  thermal_zone_bind_cooling_device :: s32
  of_thermal_get_trip_points :: "nat \<Rightarrow> s32"
  clk_prepare_enable :: s32
  thermal_add_hwmon_sysfs :: s32
  of_find_compatible_node :: bool
  of_iomap_ocotp :: bool

text \<open>The code at the label \<^verbatim>\<open>err\<close>.\<close>

definition probe_err :: "s32 \<Rightarrow> kernel \<Rightarrow> s32 \<times> imx8mm_tmu option \<times> kernel" where
  "probe_err ret k = (ret, None, iounmap TMU_BASE k)"

text \<open>The code at the label \<^verbatim>\<open>ret\<close>.\<close>

definition probe_ret :: "imx8mm_tmu \<Rightarrow> kernel \<Rightarrow> s32 \<times> imx8mm_tmu option \<times> kernel" where
  "probe_ret tmu k =
     (0, Some tmu,
      if do_calib tmu
      then dev_info ''using software calibrated temperature: OTP_CAL = %d'' k
      else dev_warn ''using (potentially bugy) imx8mm hardware calibrated value'' k)"

text \<open>The labels \<^verbatim>\<open>no_ocotp\<close> and \<^verbatim>\<open>no_ocotp_unmap\<close>, each falling through to \<^verbatim>\<open>ret\<close>.\<close>

definition probe_no_ocotp :: "imx8mm_tmu \<Rightarrow> kernel \<Rightarrow> s32 \<times> imx8mm_tmu option \<times> kernel" where
  "probe_no_ocotp tmu k = probe_ret tmu (call ''of_node_put'' k)"

definition probe_no_ocotp_unmap :: "imx8mm_tmu \<Rightarrow> kernel \<Rightarrow> s32 \<times> imx8mm_tmu option \<times> kernel" where
  "probe_no_ocotp_unmap tmu k = probe_no_ocotp tmu (iounmap OCOTP_BASE k)"

text \<open>
  Lines 232 to 268 of the probe: reading the calibration fuse. \<^verbatim>\<open>val\<close> is a \<^verbatim>\<open>u32\<close>, so
  in \<^verbatim>\<open>val == ~0\<close> the \<^verbatim>\<open>int\<close> \<^verbatim>\<open>~0\<close> is converted to the \<^verbatim>\<open>u32\<close> with every bit set.
\<close>

definition probe_calibration ::
  "platform_device \<Rightarrow> imx8mm_tmu \<Rightarrow> kernel \<Rightarrow> s32 \<times> imx8mm_tmu option \<times> kernel" where
  "probe_calibration pdev tmu k =
     (let tmu = tmu\<lparr>do_calib := False\<rparr> in
      if \<not> of_find_compatible_node pdev
      then probe_ret tmu (dev_warn ''failed to find ocotp node'' k)
      else if \<not> of_iomap_ocotp pdev
      then probe_no_ocotp tmu (dev_warn ''failed to map ocotp'' k)
      else
        (let (r, k) = readl_relaxed OCOTP_BASE OCOTP_TMU_CALIB k;
             val = r AND TEMP_VAL_MASK
         in if val = 0 \<or> val = NOT 0
            then probe_no_ocotp_unmap tmu (dev_err ''invalid sensor calibration data'' k)
            else probe_no_ocotp_unmap (tmu\<lparr>fuse_calib_val := val, do_calib := True\<rparr>) k))"

text \<open>
  Lines 213 to 230: the clock, the enable bit of the monitor and hwmon. The message
  and the releases of a failed step are those of the source.
\<close>

definition probe_enable ::
  "platform_device \<Rightarrow> imx8mm_tmu \<Rightarrow> thermal_zone_device \<Rightarrow> kernel \<Rightarrow>
     s32 \<times> imx8mm_tmu option \<times> kernel" where
  "probe_enable pdev tmu tz k =
     (let ret = clk_prepare_enable pdev in
      if ret \<noteq> 0
      then probe_err ret
             (call ''devfreq_cooling_unregister''
               (call ''thermal_zone_unbind_cooling_device''
                 (dev_warn ''tmu clock enable failed:%d'' k)))
      else
        (let (val, k) = readl_relaxed TMU_BASE TER k;
             val = val OR TER_EN;
             k = writel_relaxed val TMU_BASE TER k;
             tmu = tmu\<lparr>tzd := Some (tz\<lparr>no_hwmon := False\<rparr>)\<rparr>;
             ret = thermal_add_hwmon_sysfs pdev
         in if ret \<noteq> 0 then probe_err ret k
            else probe_calibration pdev tmu k))"

text \<open>
  \<^verbatim>\<open>imx8mm_tmu_probe(pdev)\<close> returns its return value, the instance it leaves behind
  (none when it fails: the device-managed allocation is released) and the kernel state.
\<close>

definition imx8mm_tmu_probe ::
  "platform_device \<Rightarrow> kernel \<Rightarrow> s32 \<times> imx8mm_tmu option \<times> kernel" where
  "imx8mm_tmu_probe pdev k =
     (if \<not> of_node pdev then (- ENODEV, None, dev_err ''device node NOT found'' k)
      else if \<not> devm_kzalloc pdev then (- ENOMEM, None, k)
      else
        (let tmu = kzalloc_tmu;
             k = call ''platform_set_drvdata'' k
         in if \<not> of_iomap_tmu pdev
            then (- ENODEV, None, dev_err ''Failed to map the memory'' k)
            else
              (let tmu = tmu\<lparr>tmu_base := Some TMU_BASE\<rparr> in
               case devm_clk_get pdev of
                 Inl ret \<Rightarrow> probe_err ret (dev_err ''Failed to get the tmu clk'' k)
               | Inr c \<Rightarrow>
                  (let tmu = tmu\<lparr>clk := Some c\<rparr> in
                   case devm_thermal_zone_of_sensor_register pdev of
                     Inl ret \<Rightarrow>
                       probe_err ret (dev_err ''Failed to register thermal zone sensor %d'' k)
                   | Inr tz \<Rightarrow>
                      (let tmu = tmu\<lparr>tzd := Some tz\<rparr> in
                       case devfreq_cooling_register pdev of
                         Inl ret \<Rightarrow>
                           probe_err ret
                             (if ret \<noteq> - EPROBE_DEFER then
                                dev_err ''failed to register devfreq cooling device %d'' k
                              else k)
                       | Inr cd \<Rightarrow>
                          (let tmu = tmu\<lparr>cdev := Some cd\<rparr>;
                               ret = thermal_zone_bind_cooling_device pdev
                           in if ret \<noteq> 0
                              then probe_err ret
                                     (call ''devfreq_cooling_unregister''
                                       (dev_err ''binding zone %s with cdev %s failed:%d'' k))
                              else
                                (let trips = of_thermal_get_trip_points pdev;
                                     tmu = tmu\<lparr>temp_passive := trips 0\<rparr>;
                                     tmu = tmu\<lparr>temp_critical := trips 1\<rparr>
                                 in probe_enable pdev tmu tz k)))))))"

subsection \<open>Notions the properties are stated with\<close>

text \<open>
  One attempt of \<^verbatim>\<open>tmu_get_temp\<close> (lines 80 and 83, and again lines 89 and 90): read the
  immediate temperature register, mask it, and pass the value through the calibration.
\<close>

definition tmu_sample :: "imx8mm_tmu \<Rightarrow> kernel \<Rightarrow> u32 \<times> kernel" where
  "tmu_sample tmu k =
     (let (r, k1) = readl_relaxed TMU_BASE TRITSR k
      in imx8mm_get_calibrate_temp tmu (r AND TEMP_VAL_MASK) k1)"

text \<open>The register reads of the calibration step: the raw sensor register, or none.\<close>

definition calib_reads :: "imx8mm_tmu \<Rightarrow> io_event list" where
  "calib_reads tmu = (if do_calib tmu then [Readl TMU_BASE TSCR] else [])"

text \<open>
  A platform on which the probe gets as far as the calibration fuse: every collaborator
  asked before line 232 succeeds.
\<close>

definition reaches_calibration :: "platform_device \<Rightarrow> bool" where
  "reaches_calibration pdev =
     (of_node pdev \<and> devm_kzalloc pdev \<and> of_iomap_tmu pdev \<and>
      \<not> isl (devm_clk_get pdev) \<and>
      \<not> isl (devm_thermal_zone_of_sensor_register pdev) \<and>
      \<not> isl (devfreq_cooling_register pdev) \<and>
      thermal_zone_bind_cooling_device pdev = 0 \<and>
      clk_prepare_enable pdev = 0 \<and>
      thermal_add_hwmon_sysfs pdev = 0)"

text \<open>
  What the fuse read of such a probe returns, masked: three events (the driver data
  call, the read and the write of the enable register) come before the read.
\<close>

definition fuse_val :: "kernel \<Rightarrow> u32" where
  "fuse_val k = mmio k (length (trace k) + 3) OCOTP_BASE OCOTP_TMU_CALIB AND TEMP_VAL_MASK"

text \<open>
  The calibration state a probe can leave behind: a stored offset is a non-zero 8-bit
  value.
\<close>

definition calibration_resolved :: "imx8mm_tmu \<Rightarrow> bool" where
  "calibration_resolved tmu =
     (if do_calib tmu then fuse_calib_val tmu \<noteq> 0 \<and> fuse_calib_val tmu \<le> 0xff else True)"

subsection \<open>Concrete inputs\<close>

text \<open>A platform on which every collaborator succeeds, with trip points at 85 and 95 degrees.\<close>

definition board :: platform_device where
  "board =
     \<lparr>of_node = True, devm_kzalloc = True, of_iomap_tmu = True,
      devm_clk_get = Inr 1,
      devm_thermal_zone_of_sensor_register = Inr \<lparr>temperature = 0, no_hwmon = True\<rparr>,
      devfreq_cooling_register = Inr 2,
      thermal_zone_bind_cooling_device = 0,
      of_thermal_get_trip_points = (\<lambda>i. if i = 0 then 85000 else 95000),
      clk_prepare_enable = 0,
      thermal_add_hwmon_sysfs = 0,
      of_find_compatible_node = True,
      of_iomap_ocotp = True\<rparr>"

text \<open>A kernel with nothing logged yet whose fuse register holds \<open>fuse\<close>.\<close>

definition boot :: "u32 \<Rightarrow> kernel" where
  "boot fuse =
     \<lparr>mmio = (\<lambda>t b off. if b = OCOTP_BASE \<and> off = OCOTP_TMU_CALIB then fuse else 0),
      trace = [], dmesg = []\<rparr>"

text \<open>
  A sensor whose immediate temperature register holds \<open>imm\<close> and whose raw sensor
  register holds \<open>raw\<close>, at every read.
\<close>

definition steady :: "u32 \<Rightarrow> u32 \<Rightarrow> kernel" where
  "steady imm raw =
     \<lparr>mmio = (\<lambda>t b off. if b = TMU_BASE \<and> off = TRITSR then imm
                         else if b = TMU_BASE \<and> off = TSCR then raw else 0),
      trace = [], dmesg = []\<rparr>"

text \<open>An instance with a zone at temperature \<open>cur\<close> and the two trip temperatures.\<close>

definition zone_tmu :: "s32 \<Rightarrow> s32 \<Rightarrow> s32 \<Rightarrow> imx8mm_tmu" where
  "zone_tmu cur passive critical =
     kzalloc_tmu\<lparr>tzd := Some \<lparr>temperature = cur, no_hwmon = False\<rparr>,
                 temp_passive := passive, temp_critical := critical\<rparr>"

text \<open>The instance the probe of \<open>board\<close> leaves behind when the fuse register holds \<open>fuse\<close>.\<close>

definition probed :: "u32 \<Rightarrow> imx8mm_tmu" where
  "probed fuse =
     (case fst (snd (imx8mm_tmu_probe board (boot fuse))) of
        Some tmu \<Rightarrow> tmu
      | None \<Rightarrow> kzalloc_tmu)"

section \<open>Properties\<close>

lemmas io_defs = emit_def readl_relaxed_def writel_relaxed_def msleep_def iounmap_def call_def
  printk_def dev_err_def dev_warn_def dev_info_def

lemmas const_defs = TER_def TSCR_def TRITSR_def TER_EN_def TEMP_VAL_MASK_def TEMP_LOW_LIMIT_def
  OCOTP_TMU_CALIB_def IMX_TEMP_PASSIVE_COOL_DELTA_def IMX_TRIP_PASSIVE_def IMX_TRIP_CRITICAL_def
  IMX_TRIP_NUM_def EAGAIN_def ENOMEM_def ENODEV_def EPROBE_DEFER_def

subsection \<open>Word arithmetic\<close>

lemma masked_not_all_ones: "x AND (0xff :: u32) \<noteq> - 1"
proof
  assume h: "x AND (0xff :: u32) = - 1"
  have "(x AND 0xff) AND 0x100 = (0 :: u32)" by (simp add: and.assoc)
  with h show False by simp
qed

lemma uint_masked: "uint (x AND (0xff :: u32)) \<le> 255"
proof -
  have "x AND (0xff :: u32) \<le> 0xff" by (rule word_and_le1)
  then show ?thesis by (simp add: word_le_def)
qed

lemma sint_nonneg_uint:
  fixes w :: u32
  assumes "0 \<le> sint w"
  shows "uint w = sint w"
proof -
  have "sint w < 2 ^ 31" using sint_lt [of w] by simp
  then have "sint w < 2 ^ 32" by simp
  with assms have "take_bit 32 (sint w) = sint w"
    by (intro take_bit_int_eq_self)
  then show ?thesis using uint_sint [of w] by simp
qed

lemma sint_small_uint:
  fixes w :: u32
  assumes "uint w \<le> 255"
  shows "sint w = uint w"
proof -
  define u where "u = uint w"
  have "0 \<le> u" "u \<le> 255" using assms by (simp_all add: u_def)
  then have "signed_take_bit 31 u = u"
    by (intro signed_take_bit_int_eq_self) auto
  then show ?thesis by (simp add: sint_uint u_def)
qed

lemma uint_resolved_offset:
  fixes c :: u32
  assumes "c \<noteq> 0" and "c \<le> 0xff"
  shows "1 \<le> uint c \<and> uint c \<le> 255"
proof -
  have "uint c \<noteq> 0" using assms(1) by (simp add: uint_0_iff)
  moreover have "0 \<le> uint c" by simp
  moreover have "uint c \<le> 255" using assms(2) by (simp add: word_le_def)
  ultimately show ?thesis by linarith
qed

lemma sint_calib:
  fixes raw c :: u32
  assumes "uint raw \<le> 255" and "uint c \<le> 255"
  shows "sint (raw - c + 25) = uint raw - uint c + 25"
proof -
  have "sint (raw - c + 25) = signed_take_bit 31 (uint raw - uint c + 25)"
    by (simp add: sint_uint uint_word_ariths signed_take_bit_eq_iff_take_bit_eq take_bit_eq_mod
        mod_simps)
  also have "\<dots> = uint raw - uint c + 25"
  proof -
    define r' c' where "r' = uint raw" and "c' = uint c"
    have "0 \<le> r'" "0 \<le> c'" "r' \<le> 255" "c' \<le> 255"
      using assms by (simp_all add: r'_def c'_def)
    then have "signed_take_bit 31 (r' - c' + 25) = r' - c' + 25"
      by (intro signed_take_bit_int_eq_self) auto
    then show ?thesis by (simp add: r'_def c'_def)
  qed
  finally show ?thesis .
qed

lemma sint_times_1000:
  fixes v :: u32
  assumes "- 1000000 \<le> sint v" and "sint v \<le> 1000000"
  shows "sint (v * 1000) = sint v * 1000"
proof -
  have "sint (v * 1000) = signed_take_bit 31 (sint v * 1000)"
    by (simp add: sint_word_ariths)
  also have "\<dots> = sint v * 1000"
    using assms by (intro signed_take_bit_int_eq_self) auto
  finally show ?thesis .
qed

lemma sint_sub_delta:
  fixes thr :: s32
  assumes "- (2 ^ 31) + 10000 \<le> sint thr"
  shows "sint (thr - 10000) = sint thr - 10000"
proof -
  have "sint thr < 2 ^ 31" using sint_lt [of thr] by simp
  then have "signed_take_bit 31 (sint thr - 10000) = sint thr - 10000"
    using assms by (intro signed_take_bit_int_eq_self) auto
  then show ?thesis by (simp add: sint_word_ariths)
qed

subsection \<open>The probe and the calibration fuse\<close>

text \<open>
  On a platform that gets as far as the fuse, the probe is its calibration step, run on
  an instance filled in so far and after three events.
\<close>

lemma probe_reaches:
  assumes "reaches_calibration pdev"
  shows "\<exists>tmu. imx8mm_tmu_probe pdev k =
           probe_calibration pdev tmu
             (k\<lparr>trace := trace k @ [Call ''platform_set_drvdata'', Readl TMU_BASE TER,
                 Writel TMU_BASE TER (mmio k (Suc (length (trace k))) TMU_BASE TER OR TER_EN)]\<rparr>)"
  using assms
  by (auto simp add: reaches_calibration_def imx8mm_tmu_probe_def probe_enable_def io_defs Let_def
      split: sum.splits)

text \<open>The calibration step in closed form: it rejects the masked value 0 and no other.\<close>

lemma probe_calibration_result:
  "probe_calibration pdev tmu k =
     (let readable = of_find_compatible_node pdev \<and> of_iomap_ocotp pdev;
          val = mmio k (length (trace k)) OCOTP_BASE OCOTP_TMU_CALIB AND TEMP_VAL_MASK;
          ok = readable \<and> val \<noteq> 0
      in (0,
          Some (if ok then tmu\<lparr>do_calib := True, fuse_calib_val := val\<rparr>
                else tmu\<lparr>do_calib := False\<rparr>),
          k\<lparr>trace := trace k @
                (if \<not> of_find_compatible_node pdev then []
                 else if \<not> of_iomap_ocotp pdev then [Call ''of_node_put'']
                 else [Readl OCOTP_BASE OCOTP_TMU_CALIB, Iounmap OCOTP_BASE, Call ''of_node_put'']),
             dmesg := dmesg k @
                (if \<not> of_find_compatible_node pdev then [(KERN_WARNING, ''failed to find ocotp node'')]
                 else if \<not> of_iomap_ocotp pdev then [(KERN_WARNING, ''failed to map ocotp'')]
                 else if val = 0 then [(KERN_ERR, ''invalid sensor calibration data'')]
                 else []) @
                [if ok then (KERN_INFO, ''using software calibrated temperature: OTP_CAL = %d'')
                 else (KERN_WARNING, ''using (potentially bugy) imx8mm hardware calibrated value'')]\<rparr>))"
  by (simp add: probe_calibration_def probe_ret_def probe_no_ocotp_def probe_no_ocotp_unmap_def
      io_defs Let_def split_def TEMP_VAL_MASK_def masked_not_all_ones)

lemma probe_result:
  assumes "reaches_calibration pdev"
  shows "fst (imx8mm_tmu_probe pdev k) = 0"
    and "map_option do_calib (fst (snd (imx8mm_tmu_probe pdev k))) =
           Some (of_find_compatible_node pdev \<and> of_iomap_ocotp pdev \<and> fuse_val k \<noteq> 0)"
    and "of_find_compatible_node pdev \<and> of_iomap_ocotp pdev \<and> fuse_val k \<noteq> 0 \<Longrightarrow>
           map_option fuse_calib_val (fst (snd (imx8mm_tmu_probe pdev k))) = Some (fuse_val k)"
    and "dmesg (snd (snd (imx8mm_tmu_probe pdev k))) =
           dmesg k @
           (if \<not> of_find_compatible_node pdev then [(KERN_WARNING, ''failed to find ocotp node'')]
            else if \<not> of_iomap_ocotp pdev then [(KERN_WARNING, ''failed to map ocotp'')]
            else if fuse_val k = 0 then [(KERN_ERR, ''invalid sensor calibration data'')]
            else []) @
           [if of_find_compatible_node pdev \<and> of_iomap_ocotp pdev \<and> fuse_val k \<noteq> 0
            then (KERN_INFO, ''using software calibrated temperature: OTP_CAL = %d'')
            else (KERN_WARNING, ''using (potentially bugy) imx8mm hardware calibrated value'')]"
proof -
  obtain tmu where p: "imx8mm_tmu_probe pdev k =
      probe_calibration pdev tmu
        (k\<lparr>trace := trace k @ [Call ''platform_set_drvdata'', Readl TMU_BASE TER,
            Writel TMU_BASE TER (mmio k (Suc (length (trace k))) TMU_BASE TER OR TER_EN)]\<rparr>)"
    using probe_reaches [OF assms] by blast
  have f: "mmio k (Suc (Suc (Suc (length (trace k))))) OCOTP_BASE OCOTP_TMU_CALIB AND TEMP_VAL_MASK
             = fuse_val k"
    by (simp add: fuse_val_def eval_nat_numeral)
  show "fst (imx8mm_tmu_probe pdev k) = 0"
    by (simp add: p probe_calibration_result Let_def)
  show "map_option do_calib (fst (snd (imx8mm_tmu_probe pdev k))) =
           Some (of_find_compatible_node pdev \<and> of_iomap_ocotp pdev \<and> fuse_val k \<noteq> 0)"
    by (simp add: p probe_calibration_result Let_def f)
  show "of_find_compatible_node pdev \<and> of_iomap_ocotp pdev \<and> fuse_val k \<noteq> 0 \<Longrightarrow>
           map_option fuse_calib_val (fst (snd (imx8mm_tmu_probe pdev k))) = Some (fuse_val k)"
    by (simp add: p probe_calibration_result Let_def f)
  show "dmesg (snd (snd (imx8mm_tmu_probe pdev k))) =
           dmesg k @
           (if \<not> of_find_compatible_node pdev then [(KERN_WARNING, ''failed to find ocotp node'')]
            else if \<not> of_iomap_ocotp pdev then [(KERN_WARNING, ''failed to map ocotp'')]
            else if fuse_val k = 0 then [(KERN_ERR, ''invalid sensor calibration data'')]
            else []) @
           [if of_find_compatible_node pdev \<and> of_iomap_ocotp pdev \<and> fuse_val k \<noteq> 0
            then (KERN_INFO, ''using software calibrated temperature: OTP_CAL = %d'')
            else (KERN_WARNING, ''using (potentially bugy) imx8mm hardware calibrated value'')]"
    by (simp add: p probe_calibration_result Let_def f)
qed

text \<open>Whatever the platform, an instance the probe leaves behind has its calibration resolved.\<close>

lemma probe_calibration_resolved:
  assumes "fst (snd (probe_calibration pdev tmu k)) = Some tmu'"
  shows "calibration_resolved tmu'"
proof -
  have "x AND (0xff :: u32) \<le> 0xff" for x by (rule word_and_le1)
  then show ?thesis
    using assms
    by (auto simp add: probe_calibration_result calibration_resolved_def Let_def TEMP_VAL_MASK_def
        split: if_splits)
qed

lemma probe_resolves_calibration:
  assumes "fst (snd (imx8mm_tmu_probe pdev k)) = Some tmu"
  shows "calibration_resolved tmu"
  using assms
  by (auto simp add: imx8mm_tmu_probe_def probe_enable_def probe_err_def Let_def split_def
      split: if_splits sum.splits dest: probe_calibration_resolved)

lemma set_trip_temp_keeps_calibration:
  "calibration_resolved (snd (tmu_set_trip_temp tmu trip temp)) = calibration_resolved tmu"
  by (simp add: tmu_set_trip_temp_def calibration_resolved_def Let_def)

lemma board_reaches: "reaches_calibration board"
  by (simp add: reaches_calibration_def board_def)

lemma fuse_val_boot: "fuse_val (boot v) = v AND 0xff"
  by (simp add: fuse_val_def boot_def TEMP_VAL_MASK_def)

lemma probed_value:
  "fuse AND 0xff \<noteq> 0 \<Longrightarrow>
   fst (snd (imx8mm_tmu_probe board (boot fuse))) = Some (probed fuse) \<and>
   do_calib (probed fuse) \<and> fuse_calib_val (probed fuse) = fuse AND 0xff"
  using probe_result(2,3) [OF board_reaches, of "boot fuse"]
  by (auto simp add: probed_def fuse_val_boot board_def split: option.splits)

lemma probed_resolved: "calibration_resolved (probed fuse)"
proof (cases "fst (snd (imx8mm_tmu_probe board (boot fuse)))")
  case None
  then show ?thesis by (simp add: probed_def calibration_resolved_def kzalloc_tmu_def)
next
  case (Some tmu)
  then show ?thesis using probe_resolves_calibration [OF Some] by (simp add: probed_def)
qed

text \<open>
  Claim C1. The claim: of the masked fuse values, 0x00 and 0xFF leave the instance
  uncalibrated, and every other value calibrates it with the value as offset. The code
  does so for every value but 0xFF: it compares the masked value with \<^verbatim>\<open>~0\<close>, the word
  with all 32 bits set, which no masked value equals. Evaluated on a fuse register
  holding 0xFF, the probe succeeds and leaves a calibrated instance with offset 0xFF.
\<close>

theorem probe_fuse_all_ones:
  "fst (imx8mm_tmu_probe board (boot 0xff)) = 0 \<and>
   map_option do_calib (fst (snd (imx8mm_tmu_probe board (boot 0xff)))) = Some True \<and>
   map_option fuse_calib_val (fst (snd (imx8mm_tmu_probe board (boot 0xff)))) = Some 0xff"
proof -
  have z: "fuse_val (boot 0xff) = 0xff" by (simp add: fuse_val_boot)
  have d: "of_find_compatible_node board" "of_iomap_ocotp board"
    by (simp_all add: board_def)
  show ?thesis
    using probe_result(1-3) [OF board_reaches, of "boot 0xff"] z d by simp
qed

text \<open>
  Claim C7, as the code has it. When the probe gets as far as the fuse and the fuse
  cannot be read (no OCOTP node, or its registers cannot be mapped) or its masked value
  is 0, the probe returns 0 and leaves an uncalibrated instance. It logs two messages:
  first the reason, a warning when the fuse cannot be read but an error-level message
  when its value is 0, then the warning that the hardware calibrated value is used.
\<close>

theorem probe_absorbs_missing_calibration:
  assumes "reaches_calibration pdev"
    and "\<not> of_find_compatible_node pdev \<or> \<not> of_iomap_ocotp pdev \<or> fuse_val k = 0"
  shows "fst (imx8mm_tmu_probe pdev k) = 0 \<and>
         map_option do_calib (fst (snd (imx8mm_tmu_probe pdev k))) = Some False \<and>
         dmesg (snd (snd (imx8mm_tmu_probe pdev k))) =
           dmesg k @
           [if \<not> of_find_compatible_node pdev then (KERN_WARNING, ''failed to find ocotp node'')
            else if \<not> of_iomap_ocotp pdev then (KERN_WARNING, ''failed to map ocotp'')
            else (KERN_ERR, ''invalid sensor calibration data''),
            (KERN_WARNING, ''using (potentially bugy) imx8mm hardware calibrated value'')]"
  using assms(2) probe_result(1,2,4) [OF assms(1), of k]
  by auto

text \<open>The probe of \<open>board\<close> with a fuse register holding 0.\<close>

theorem probe_absorbs_missing_calibration_witness:
  "reaches_calibration board \<and> fuse_val (boot 0) = 0 \<and>
   fst (imx8mm_tmu_probe board (boot 0)) = 0 \<and>
   map_option do_calib (fst (snd (imx8mm_tmu_probe board (boot 0)))) = Some False \<and>
   dmesg (snd (snd (imx8mm_tmu_probe board (boot 0)))) =
     [(KERN_ERR, ''invalid sensor calibration data''),
      (KERN_WARNING, ''using (potentially bugy) imx8mm hardware calibrated value'')]"
proof -
  have r: "reaches_calibration board" by (rule board_reaches)
  have z: "fuse_val (boot 0) = 0" by (simp add: fuse_val_boot)
  have d: "dmesg (boot 0) = []" "of_find_compatible_node board" "of_iomap_ocotp board"
    by (simp_all add: boot_def board_def)
  show ?thesis
    using probe_absorbs_missing_calibration [of board "boot 0", OF r] r z d by simp
qed

text \<open>
  Against claim C7 as stated (only a warning is logged): with a fuse register holding
  0 the probe succeeds and its log holds an error-level message.
\<close>

theorem probe_zero_fuse_logs_error:
  "fst (imx8mm_tmu_probe board (boot 0)) = 0 \<and>
   (KERN_ERR, ''invalid sensor calibration data'')
     \<in> set (dmesg (snd (snd (imx8mm_tmu_probe board (boot 0)))))"
proof -
  have z: "fuse_val (boot 0) = 0" by (simp add: fuse_val_boot)
  have d: "dmesg (boot 0) = []" "of_find_compatible_node board" "of_iomap_ocotp board"
    by (simp_all add: boot_def board_def)
  show ?thesis
    using probe_result(1,4) [OF board_reaches, of "boot 0"] z d by simp
qed

subsection \<open>Reading the temperature\<close>

lemma calibrate_calibrated:
  "do_calib tmu \<Longrightarrow>
     imx8mm_get_calibrate_temp tmu val k =
       ((mmio k (length (trace k)) TMU_BASE TSCR AND TEMP_VAL_MASK) - fuse_calib_val tmu + 25,
        emit (Readl TMU_BASE TSCR) k)"
  by (simp add: imx8mm_get_calibrate_temp_def readl_relaxed_def Let_def)

lemma calibrate_uncalibrated:
  "\<not> do_calib tmu \<Longrightarrow> imx8mm_get_calibrate_temp tmu val k = (val, k)"
  by (simp add: imx8mm_get_calibrate_temp_def)

lemma sample_calibrated:
  "do_calib tmu \<Longrightarrow>
     tmu_sample tmu k =
       ((mmio k (Suc (length (trace k))) TMU_BASE TSCR AND TEMP_VAL_MASK) - fuse_calib_val tmu + 25,
        k\<lparr>trace := trace k @ [Readl TMU_BASE TRITSR, Readl TMU_BASE TSCR]\<rparr>)"
  by (simp add: tmu_sample_def calibrate_calibrated readl_relaxed_def emit_def Let_def)

lemma sample_uncalibrated:
  "\<not> do_calib tmu \<Longrightarrow>
     tmu_sample tmu k =
       (mmio k (length (trace k)) TMU_BASE TRITSR AND TEMP_VAL_MASK,
        k\<lparr>trace := trace k @ [Readl TMU_BASE TRITSR]\<rparr>)"
  by (simp add: tmu_sample_def calibrate_uncalibrated readl_relaxed_def emit_def Let_def)

lemma tmu_sample_trace:
  "trace (snd (tmu_sample tmu k)) = trace k @ [Readl TMU_BASE TRITSR] @ calib_reads tmu"
  by (simp add: tmu_sample_def imx8mm_get_calibrate_temp_def calib_reads_def readl_relaxed_def
      emit_def split_def Let_def)

text \<open>\<^verbatim>\<open>tmu_get_temp\<close> is one attempt, and a second one after the sleep when the first is low.\<close>

lemma tmu_get_temp_samples:
  "tmu_get_temp tmu temp k =
     (let (v1, k2) = tmu_sample tmu k in
      if v1 < TEMP_LOW_LIMIT then
        (let (v2, k5) = tmu_sample tmu (msleep 10 k2) in
         if v2 < TEMP_LOW_LIMIT then (- EAGAIN, temp, k5) else (0, v2 * 1000, k5))
      else (0, v1 * 1000, k2))"
  by (simp add: tmu_get_temp_def tmu_sample_def split_def Let_def)

lemma get_temp_calibrated_steady:
  assumes "do_calib tmu" and "\<not> (raw AND 0xff) - fuse_calib_val tmu + 25 < (10 :: u32)"
  shows "tmu_get_temp tmu temp (steady imm raw) =
           (0, ((raw AND 0xff) - fuse_calib_val tmu + 25) * 1000,
            steady imm raw\<lparr>trace := [Readl TMU_BASE TRITSR, Readl TMU_BASE TSCR]\<rparr>)"
  using assms
  by (simp add: tmu_get_temp_samples sample_calibrated steady_def TEMP_VAL_MASK_def
      TEMP_LOW_LIMIT_def TSCR_def TRITSR_def)



text \<open>
  The range of an attempt's value that is not below the low limit, read as two's
  complement: the comparison with the limit is unsigned, so a calibrated value that
  wrapped around passes it.
\<close>

lemma sample_range:
  assumes "calibration_resolved tmu" and "\<not> fst (tmu_sample tmu k) < TEMP_LOW_LIMIT"
  shows "if do_calib tmu
         then - 230 \<le> sint (fst (tmu_sample tmu k)) \<and> sint (fst (tmu_sample tmu k)) \<le> - 1 \<or>
              10 \<le> sint (fst (tmu_sample tmu k)) \<and> sint (fst (tmu_sample tmu k)) \<le> 279
         else 10 \<le> sint (fst (tmu_sample tmu k)) \<and> sint (fst (tmu_sample tmu k)) \<le> 255"
proof (cases "do_calib tmu")
  case True
  define raw where "raw = mmio k (Suc (length (trace k))) TMU_BASE TSCR AND TEMP_VAL_MASK"
  define c where "c = fuse_calib_val tmu"
  define v where "v = raw - c + 25"
  have v: "fst (tmu_sample tmu k) = v"
    using True by (simp add: sample_calibrated raw_def c_def v_def)
  have r: "uint raw \<le> 255"
    unfolding raw_def TEMP_VAL_MASK_def by (rule uint_masked)
  have c: "1 \<le> uint c \<and> uint c \<le> 255"
    using assms(1) True by (intro uint_resolved_offset) (simp_all add: calibration_resolved_def c_def)
  have s: "sint v = uint raw - uint c + 25"
    unfolding v_def using r c by (intro sint_calib) simp_all
  have lo: "10 \<le> uint v"
    using assms(2) by (simp add: v TEMP_LOW_LIMIT_def word_less_def)
  have r0: "0 \<le> uint raw" by simp
  have "- 230 \<le> sint v \<and> sint v \<le> 279"
    using s r r0 c by linarith
  moreover have "0 \<le> sint v \<Longrightarrow> 10 \<le> sint v"
    using lo sint_nonneg_uint [of v] by simp
  ultimately have "- 230 \<le> sint v \<and> sint v \<le> - 1 \<or> 10 \<le> sint v \<and> sint v \<le> 279"
    by linarith
  then show ?thesis using True by (simp add: v)
next
  case False
  define v where "v = mmio k (length (trace k)) TMU_BASE TRITSR AND TEMP_VAL_MASK"
  have v: "fst (tmu_sample tmu k) = v"
    using False by (simp add: sample_uncalibrated v_def)
  have r: "uint v \<le> 255"
    unfolding v_def TEMP_VAL_MASK_def by (rule uint_masked)
  have lo: "10 \<le> uint v"
    using assms(2) by (simp add: v TEMP_LOW_LIMIT_def word_less_def)
  have "sint v = uint v" using r by (rule sint_small_uint)
  then show ?thesis using False r lo by (simp add: v)
qed

text \<open>
  Claim C3, as the code has it. On an instance whose calibration was resolved by the
  probe, whenever \<^verbatim>\<open>tmu_get_temp\<close> returns 0 the reported temperature is the value \<open>v\<close>
  of the attempt that passed the low limit, times 1000, and read as an \<^verbatim>\<open>int\<close> it is
  exactly 1000 times the degrees \<open>sint v\<close>: always a multiple of 1000. Without
  calibration the degrees lie in [10, 255]. With calibration they lie in [10, 279],
  provided the calibrated value did not wrap around, that is, read as an \<^verbatim>\<open>int\<close> it is
  not negative.
\<close>

theorem get_temp_millidegrees:
  assumes "calibration_resolved tmu"
    and "fst (tmu_get_temp tmu temp k) = 0"
    and "v = (if fst (tmu_sample tmu k) < TEMP_LOW_LIMIT
              then fst (tmu_sample tmu (msleep 10 (snd (tmu_sample tmu k))))
              else fst (tmu_sample tmu k))"
  shows "fst (snd (tmu_get_temp tmu temp k)) = v * 1000 \<and>
         sint (v * 1000) = sint v * 1000 \<and>
         (\<not> do_calib tmu \<longrightarrow> 10 \<le> sint v \<and> sint v \<le> 255) \<and>
         (do_calib tmu \<and> 0 \<le> sint v \<longrightarrow> 10 \<le> sint v \<and> sint v \<le> 279)"
proof -
  define k2 where "k2 = msleep 10 (snd (tmu_sample tmu k))"
  have ok: "\<not> (fst (tmu_sample tmu k) < TEMP_LOW_LIMIT \<and> fst (tmu_sample tmu k2) < TEMP_LOW_LIMIT)"
    using assms(2) by (auto simp add: tmu_get_temp_samples split_def Let_def EAGAIN_def k2_def)
  have t: "fst (snd (tmu_get_temp tmu temp k)) = v * 1000"
    using ok by (auto simp add: tmu_get_temp_samples split_def Let_def assms(3) k2_def)
  have rng: "if do_calib tmu
      then - 230 \<le> sint v \<and> sint v \<le> - 1 \<or> 10 \<le> sint v \<and> sint v \<le> 279
      else 10 \<le> sint v \<and> sint v \<le> 255"
  proof (cases "fst (tmu_sample tmu k) < TEMP_LOW_LIMIT")
    case True
    then have "v = fst (tmu_sample tmu k2)" by (simp add: assms(3) k2_def)
    moreover have "\<not> fst (tmu_sample tmu k2) < TEMP_LOW_LIMIT" using ok True by simp
    ultimately show ?thesis using sample_range [OF assms(1), of k2] by simp
  next
    case False
    then have "v = fst (tmu_sample tmu k)" by (simp add: assms(3))
    then show ?thesis using sample_range [OF assms(1) False] by simp
  qed
  have "- 1000000 \<le> sint v \<and> sint v \<le> 1000000"
    using rng by (auto split: if_splits)
  then have m: "sint (v * 1000) = sint v * 1000"
    by (intro sint_times_1000) simp_all
  have u: "\<not> do_calib tmu \<longrightarrow> 10 \<le> sint v \<and> sint v \<le> 255"
    using rng by simp
  have c: "do_calib tmu \<and> 0 \<le> sint v \<longrightarrow> 10 \<le> sint v \<and> sint v \<le> 279"
    using rng by auto
  from t m u c show ?thesis by blast
qed

text \<open>The spec's example: fuse 20 and raw value 30 give 35000 millidegrees.\<close>

theorem get_temp_millidegrees_witness:
  "calibration_resolved (probed 20) \<and> do_calib (probed 20) \<and>
   fst (tmu_get_temp (probed 20) 0 (steady 50 30)) = 0 \<and>
   fst (snd (tmu_get_temp (probed 20) 0 (steady 50 30))) = 35 * 1000 \<and>
   sint (35 * 1000 :: u32) = 35 * 1000 \<and>
   0 \<le> sint (35 :: u32) \<and> 10 \<le> sint (35 :: u32) \<and> sint (35 :: u32) \<le> 279"
proof -
  have p: "do_calib (probed 20)" "fuse_calib_val (probed 20) = 20"
    using probed_value [of 20] by simp_all
  have g: "tmu_get_temp (probed 20) 0 (steady 50 30) =
      (0, 35000, steady 50 30\<lparr>trace := [Readl TMU_BASE TRITSR, Readl TMU_BASE TSCR]\<rparr>)"
    using get_temp_calibrated_steady [of "probed 20" 30 0 50] p by simp
  have s: "fst (tmu_sample (probed 20) (steady 50 30)) = 35"
    using p by (simp add: sample_calibrated steady_def TEMP_VAL_MASK_def TSCR_def TRITSR_def)
  have v: "35 = (if fst (tmu_sample (probed 20) (steady 50 30)) < TEMP_LOW_LIMIT
              then fst (tmu_sample (probed 20) (msleep 10 (snd (tmu_sample (probed 20) (steady 50 30)))))
              else fst (tmu_sample (probed 20) (steady 50 30)))"
    by (simp add: s TEMP_LOW_LIMIT_def)
  have z: "fst (tmu_get_temp (probed 20) 0 (steady 50 30)) = 0" by (simp add: g)
  show ?thesis
    using get_temp_millidegrees [OF probed_resolved z v] probed_resolved [of 20] z p(1) by simp
qed

text \<open>
  Against claim C3 as stated (degrees in [10, 255]): the probe with a fuse register
  holding 1 leaves an instance on which a raw value of 255 is reported, with return
  value 0, as 279000 millidegrees.
\<close>

theorem get_temp_above_255:
  "fst (snd (imx8mm_tmu_probe board (boot 1))) = Some (probed 1) \<and>
   fst (tmu_get_temp (probed 1) 0 (steady 50 255)) = 0 \<and>
   sint (fst (snd (tmu_get_temp (probed 1) 0 (steady 50 255)))) = 279000 \<and>
   \<not> 279000 \<le> (255 * 1000 :: int)"
proof -
  have p: "fst (snd (imx8mm_tmu_probe board (boot 1))) = Some (probed 1)"
    "do_calib (probed 1)" "fuse_calib_val (probed 1) = 1"
    using probed_value [of 1] by simp_all
  have "tmu_get_temp (probed 1) 0 (steady 50 255) =
      (0, 279000, steady 50 255\<lparr>trace := [Readl TMU_BASE TRITSR, Readl TMU_BASE TSCR]\<rparr>)"
    using get_temp_calibrated_steady [of "probed 1" 255 0 50] p(2,3) by simp
  then show ?thesis using p(1) by simp
qed

text \<open>
  The retry as the code decides it. Let \<open>s1\<close> be the first attempt and \<open>s2\<close> the attempt
  made after a sleep of 10 on the state the first one left. The code compares their
  values with the low limit as unsigned 32-bit values: \<^verbatim>\<open>tmu_get_temp\<close> returns
  \<^verbatim>\<open>-EAGAIN\<close> if and only if both are below 10 in that order, and 0 otherwise. What it
  does to the outside world is the first attempt and, exactly when the first value is
  below 10 in that order, one sleep of 10 followed by the same reads again.
\<close>

lemma get_temp_attempts:
  "(let s1 = tmu_sample tmu k;
        s2 = tmu_sample tmu (msleep 10 (snd s1));
        res = tmu_get_temp tmu temp k
    in (fst res = - EAGAIN \<longleftrightarrow> fst s1 < TEMP_LOW_LIMIT \<and> fst s2 < TEMP_LOW_LIMIT) \<and>
       (fst res = 0 \<longleftrightarrow> \<not> (fst s1 < TEMP_LOW_LIMIT \<and> fst s2 < TEMP_LOW_LIMIT)) \<and>
       trace (snd (snd res)) =
         trace k @ [Readl TMU_BASE TRITSR] @ calib_reads tmu @
         (if fst s1 < TEMP_LOW_LIMIT
          then [Msleep 10, Readl TMU_BASE TRITSR] @ calib_reads tmu else []))"
  by (simp add: tmu_get_temp_samples tmu_sample_trace split_def Let_def EAGAIN_def msleep_def emit_def)

text \<open>The spec's example: two readings of 5 give \<^verbatim>\<open>-EAGAIN\<close>, with one sleep between the reads.\<close>

lemma get_temp_attempts_example:
  "fst (tmu_sample kzalloc_tmu (steady 5 0)) = 5 \<and>
   fst (tmu_get_temp kzalloc_tmu 7 (steady 5 0)) = - EAGAIN \<and>
   trace (snd (snd (tmu_get_temp kzalloc_tmu 7 (steady 5 0)))) =
     [Readl TMU_BASE TRITSR, Msleep 10, Readl TMU_BASE TRITSR]"
proof -
  have u: "\<not> do_calib kzalloc_tmu" by (simp add: kzalloc_tmu_def)
  have c: "calib_reads kzalloc_tmu = []" by (simp add: calib_reads_def kzalloc_tmu_def)
  have s: "fst (tmu_sample kzalloc_tmu k) = mmio k (length (trace k)) TMU_BASE TRITSR AND 0xff" for k
    by (simp add: sample_uncalibrated [OF u] TEMP_VAL_MASK_def)
  have m: "mmio (snd (tmu_sample kzalloc_tmu (steady 5 0))) = mmio (steady 5 0)"
    by (simp add: sample_uncalibrated [OF u])
  have a: "fst (tmu_sample kzalloc_tmu (steady 5 0)) = 5"
    by (simp add: s steady_def)
  have b: "fst (tmu_sample kzalloc_tmu (msleep 10 (snd (tmu_sample kzalloc_tmu (steady 5 0))))) = 5"
    by (simp add: s msleep_def emit_def m) (simp add: steady_def)
  have t: "trace (steady 5 0) = []" by (simp add: steady_def)
  show ?thesis
    using get_temp_attempts [of kzalloc_tmu "steady 5 0" 7]
    by (simp add: Let_def a b c t TEMP_LOW_LIMIT_def)
qed

text \<open>
  Claim C4. The claim: when the first, possibly calibrated, value is below the low limit
  10 the code sleeps once and reads again, and it returns \<^verbatim>\<open>-EAGAIN\<close> if and only if
  both values are below 10. The code does not do so for a calibrated value below zero,
  which the unsigned comparison takes for a large one. On the instance the probe leaves
  with a fuse register holding 56, with a raw sensor register holding 30, the first
  attempt and the attempt a retry would make are both \<open>30 - 56 + 25\<close>, one degree below
  zero; \<^verbatim>\<open>tmu_get_temp\<close> still returns 0 and reports -1000 millidegrees, after the two
  reads of the first attempt and no sleep.
\<close>

theorem get_temp_negative_not_retried:
  "fst (snd (imx8mm_tmu_probe board (boot 56))) = Some (probed 56) \<and>
   sint (fst (tmu_sample (probed 56) (steady 50 30))) = 30 - 56 + 25 \<and>
   sint (fst (tmu_sample (probed 56) (msleep 10 (snd (tmu_sample (probed 56) (steady 50 30)))))) =
     30 - 56 + 25 \<and>
   tmu_get_temp (probed 56) 0 (steady 50 30) =
     (0, - 1000, steady 50 30\<lparr>trace := [Readl TMU_BASE TRITSR, Readl TMU_BASE TSCR]\<rparr>)"
proof -
  have p: "fst (snd (imx8mm_tmu_probe board (boot 56))) = Some (probed 56)"
    "do_calib (probed 56)" "fuse_calib_val (probed 56) = 56"
    using probed_value [of 56] by simp_all
  have s: "fst (tmu_sample (probed 56) k) =
      (mmio k (Suc (length (trace k))) TMU_BASE TSCR AND 0xff) - 56 + 25" for k
    using p(2,3) by (simp add: sample_calibrated TEMP_VAL_MASK_def)
  have m: "mmio (msleep 10 (snd (tmu_sample (probed 56) (steady 50 30)))) = mmio (steady 50 30)"
    using p(2) by (simp add: sample_calibrated msleep_def emit_def)
  have r: "mmio (steady 50 30) t TMU_BASE TSCR = 30" for t
    by (simp add: steady_def TSCR_def TRITSR_def)
  have a: "sint (fst (tmu_sample (probed 56) (steady 50 30))) = 30 - 56 + 25"
    by (simp add: s r)
  have b: "sint (fst (tmu_sample (probed 56) (msleep 10 (snd (tmu_sample (probed 56) (steady 50 30)))))) =
      30 - 56 + 25"
    by (simp add: s m r)
  have g: "tmu_get_temp (probed 56) 0 (steady 50 30) =
      (0, - 1000, steady 50 30\<lparr>trace := [Readl TMU_BASE TRITSR, Readl TMU_BASE TSCR]\<rparr>)"
    using get_temp_calibrated_steady [of "probed 56" 30 0 50] p(2,3) by simp
  from p(1) a b g show ?thesis by blast
qed

text \<open>
  Claim C9. When calibration is absent the calibration step returns the value and the
  state it was given. \<^verbatim>\<open>tmu_get_temp\<close> then reads the immediate register alone (the
  raw sensor register is not among its reads): with \<open>imm1\<close> the masked first reading
  and \<open>imm2\<close> the masked reading after the sleep, a successful call reports \<open>imm1\<close> times
  1000 when \<open>imm1\<close> is at least 10, and else \<open>imm2\<close> times 1000; the product does not
  overflow.
\<close>

theorem get_temp_uncalibrated:
  assumes "\<not> do_calib tmu"
    and "imm1 = mmio k (length (trace k)) TMU_BASE TRITSR AND TEMP_VAL_MASK"
    and "imm2 = mmio k (length (trace k) + 2) TMU_BASE TRITSR AND TEMP_VAL_MASK"
  shows "imx8mm_get_calibrate_temp tmu val k = (val, k) \<and>
         tmu_get_temp tmu temp k =
           (if imm1 < TEMP_LOW_LIMIT then
              if imm2 < TEMP_LOW_LIMIT
              then (- EAGAIN, temp,
                    k\<lparr>trace := trace k @ [Readl TMU_BASE TRITSR, Msleep 10, Readl TMU_BASE TRITSR]\<rparr>)
              else (0, imm2 * 1000,
                    k\<lparr>trace := trace k @ [Readl TMU_BASE TRITSR, Msleep 10, Readl TMU_BASE TRITSR]\<rparr>)
            else (0, imm1 * 1000, k\<lparr>trace := trace k @ [Readl TMU_BASE TRITSR]\<rparr>)) \<and>
         sint (imm1 * 1000) = uint imm1 * 1000 \<and>
         sint (imm2 * 1000) = uint imm2 * 1000"
proof -
  have m: "sint ((x AND TEMP_VAL_MASK) * 1000) = uint (x AND TEMP_VAL_MASK) * 1000" for x :: u32
  proof -
    have u: "uint (x AND TEMP_VAL_MASK) \<le> 255"
      unfolding TEMP_VAL_MASK_def by (rule uint_masked)
    then have s: "sint (x AND TEMP_VAL_MASK) = uint (x AND TEMP_VAL_MASK)"
      by (rule sint_small_uint)
    have "- 1000000 \<le> sint (x AND TEMP_VAL_MASK)" "sint (x AND TEMP_VAL_MASK) \<le> 1000000"
      using u s uint_ge_0 [of "x AND TEMP_VAL_MASK"] by linarith+
    then have "sint ((x AND TEMP_VAL_MASK) * 1000) = sint (x AND TEMP_VAL_MASK) * 1000"
      by (rule sint_times_1000)
    then show ?thesis by (simp add: s)
  qed
  have g: "tmu_get_temp tmu temp k =
           (if imm1 < TEMP_LOW_LIMIT then
              if imm2 < TEMP_LOW_LIMIT
              then (- EAGAIN, temp,
                    k\<lparr>trace := trace k @ [Readl TMU_BASE TRITSR, Msleep 10, Readl TMU_BASE TRITSR]\<rparr>)
              else (0, imm2 * 1000,
                    k\<lparr>trace := trace k @ [Readl TMU_BASE TRITSR, Msleep 10, Readl TMU_BASE TRITSR]\<rparr>)
            else (0, imm1 * 1000, k\<lparr>trace := trace k @ [Readl TMU_BASE TRITSR]\<rparr>))"
    using assms(1)
    by (simp add: tmu_get_temp_samples sample_uncalibrated assms(2,3) msleep_def emit_def)
  show ?thesis
    using assms(1) g by (simp add: calibrate_uncalibrated assms(2,3) m)
qed

text \<open>The spec's example: no calibration and an immediate reading of 45 give 45000 millidegrees.\<close>

theorem get_temp_uncalibrated_witness:
  "\<not> do_calib kzalloc_tmu \<and>
   tmu_get_temp kzalloc_tmu 0 (steady 45 0) =
     (0, 45 * 1000, steady 45 0\<lparr>trace := [Readl TMU_BASE TRITSR]\<rparr>) \<and>
   sint (45 * 1000 :: u32) = 45 * 1000"
proof -
  have a: "\<not> do_calib kzalloc_tmu" by (simp add: kzalloc_tmu_def)
  have b: "45 = mmio (steady 45 0) (length (trace (steady 45 0))) TMU_BASE TRITSR AND TEMP_VAL_MASK"
    "45 = mmio (steady 45 0) (length (trace (steady 45 0)) + 2) TMU_BASE TRITSR AND TEMP_VAL_MASK"
    by (simp_all add: steady_def TEMP_VAL_MASK_def)
  have t: "trace (steady 45 0) = []" by (simp add: steady_def)
  show ?thesis
    using get_temp_uncalibrated [OF a b, of 0 0] a by (simp add: TEMP_LOW_LIMIT_def t)
qed

subsection \<open>Trip points and trend\<close>

text \<open>
  Claim C5, as the code has it. With a zone present and \<open>thr\<close> the threshold the selector
  picks (the passive one for \<^verbatim>\<open>IMX_TRIP_PASSIVE\<close>, the critical one otherwise),
  provided \<open>thr - 10000\<close> is an \<^verbatim>\<open>int\<close>, that is \<open>thr\<close> is at least \<open>- 2 ^ 31 + 10000\<close>:
  \<^verbatim>\<open>tmu_get_trend\<close> returns 0 and sets the trend to \<open>THERMAL_TREND_RAISE_FULL\<close> if the
  zone temperature is at least \<open>thr - 10000\<close>, equality included, and to
  \<open>THERMAL_TREND_DROP_FULL\<close> otherwise. Below that bound the subtraction wraps around.
\<close>

theorem get_trend_hysteresis:
  assumes "tzd tmu = Some tz"
    and "thr = (if trip = IMX_TRIP_PASSIVE then temp_passive tmu else temp_critical tmu)"
    and "- (2 ^ 31) + 10000 \<le> sint thr"
  shows "tmu_get_trend tmu trip trend =
           (0, if sint thr - 10000 \<le> sint (temperature tz)
               then THERMAL_TREND_RAISE_FULL else THERMAL_TREND_DROP_FULL)"
  using assms sint_sub_delta [of thr]
  by (simp add: tmu_get_trend_def IMX_TEMP_PASSIVE_COOL_DELTA_def)

text \<open>
  The spec's example and the boundary: passive trip 85000 and zone temperature 76000,
  and passive trip 85000 and zone temperature 75000, both rising; 74999 falling.
\<close>

theorem get_trend_hysteresis_witness:
  "tmu_get_trend (zone_tmu 76000 85000 95000) IMX_TRIP_PASSIVE THERMAL_TREND_STABLE =
     (0, THERMAL_TREND_RAISE_FULL) \<and>
   tmu_get_trend (zone_tmu 75000 85000 95000) IMX_TRIP_PASSIVE THERMAL_TREND_STABLE =
     (0, THERMAL_TREND_RAISE_FULL) \<and>
   tmu_get_trend (zone_tmu 74999 85000 95000) IMX_TRIP_PASSIVE THERMAL_TREND_STABLE =
     (0, THERMAL_TREND_DROP_FULL)"
proof -
  have z: "tzd (zone_tmu cur 85000 95000) = Some \<lparr>temperature = cur, no_hwmon = False\<rparr>" for cur
    by (simp add: zone_tmu_def kzalloc_tmu_def)
  have t: "85000 = (if IMX_TRIP_PASSIVE = IMX_TRIP_PASSIVE then temp_passive (zone_tmu cur 85000 95000)
                    else temp_critical (zone_tmu cur 85000 95000))" for cur
    by (simp add: zone_tmu_def kzalloc_tmu_def)
  have b: "- (2 ^ 31) + 10000 \<le> sint (85000 :: s32)" by simp
  show ?thesis
    using get_trend_hysteresis [OF z t b, of 76000 THERMAL_TREND_STABLE]
      get_trend_hysteresis [OF z t b, of 75000 THERMAL_TREND_STABLE]
      get_trend_hysteresis [OF z t b, of 74999 THERMAL_TREND_STABLE]
    by simp
qed

text \<open>
  Against claim C5 as stated (every threshold): with the passive threshold at
  \<open>- 2 ^ 31\<close> and the zone at 0 the trend is falling, although 0 is above the
  threshold minus 10000.
\<close>

theorem get_trend_wraps:
  "tmu_get_trend (zone_tmu 0 (- 2147483648) 95000) IMX_TRIP_PASSIVE THERMAL_TREND_STABLE =
     (0, THERMAL_TREND_DROP_FULL) \<and>
   sint (- 2147483648 :: s32) - 10000 \<le> sint (0 :: s32)"
  by (simp add: tmu_get_trend_def zone_tmu_def kzalloc_tmu_def IMX_TRIP_PASSIVE_def
      IMX_TEMP_PASSIVE_COOL_DELTA_def)

text \<open>
  Claim C6, as the code has it. When the thermal zone reference is absent,
  \<^verbatim>\<open>tmu_get_trend\<close> returns 0 without writing the trend: the output holds what it held
  before the call, for every trip selector.
\<close>

theorem get_trend_no_zone:
  "tzd tmu = None \<Longrightarrow> tmu_get_trend tmu trip trend = (0, trend)"
  by (simp add: tmu_get_trend_def)

theorem get_trend_no_zone_witness:
  "tzd kzalloc_tmu = None \<and>
   tmu_get_trend kzalloc_tmu IMX_TRIP_PASSIVE THERMAL_TREND_DROPPING = (0, THERMAL_TREND_DROPPING)"
  using get_trend_no_zone [of kzalloc_tmu IMX_TRIP_PASSIVE THERMAL_TREND_DROPPING]
  by (simp add: kzalloc_tmu_def)

text \<open>
  Against claim C6 as stated (the trend is set to Stable): on an instance without a
  zone, a trend output holding \<open>THERMAL_TREND_RAISE_FULL\<close> still holds it afterwards.
\<close>

theorem get_trend_no_zone_not_stable:
  "tmu_get_trend kzalloc_tmu IMX_TRIP_PASSIVE THERMAL_TREND_RAISE_FULL = (0, THERMAL_TREND_RAISE_FULL) \<and>
   snd (tmu_get_trend kzalloc_tmu IMX_TRIP_PASSIVE THERMAL_TREND_RAISE_FULL) \<noteq> THERMAL_TREND_STABLE"
  by (simp add: tmu_get_trend_def kzalloc_tmu_def)

text \<open>
  Claim C8. For the passive and for the critical selector, and every temperature,
  \<^verbatim>\<open>tmu_set_trip_temp\<close> returns 0 and the instance afterwards is the instance before
  with the selected threshold replaced by the temperature given: no other field changes
  and no temperature is refused.
\<close>

theorem set_trip_temp_overwrites:
  "tmu_set_trip_temp tmu IMX_TRIP_PASSIVE temp = (0, tmu\<lparr>temp_passive := temp\<rparr>) \<and>
   tmu_set_trip_temp tmu IMX_TRIP_CRITICAL temp = (0, tmu\<lparr>temp_critical := temp\<rparr>)"
  by (simp add: tmu_set_trip_temp_def const_defs)

text \<open>
  Claim C10. For every selector other than \<^verbatim>\<open>IMX_TRIP_PASSIVE\<close>, \<^verbatim>\<open>tmu_get_trend\<close> does
  what it does for \<^verbatim>\<open>IMX_TRIP_CRITICAL\<close>: it compares the zone temperature with the
  critical threshold. For every selector that is neither, \<^verbatim>\<open>tmu_set_trip_temp\<close> returns
  0 and leaves the instance as it was.
\<close>

theorem other_selectors:
  "trip \<noteq> IMX_TRIP_PASSIVE \<Longrightarrow>
     tmu_get_trend tmu trip trend = tmu_get_trend tmu IMX_TRIP_CRITICAL trend \<and>
     tmu_get_trend tmu trip trend =
       (case tzd tmu of None \<Rightarrow> (0, trend)
        | Some tz \<Rightarrow>
            (0, if sint (temp_critical tmu - IMX_TEMP_PASSIVE_COOL_DELTA) \<le> sint (temperature tz)
                then THERMAL_TREND_RAISE_FULL else THERMAL_TREND_DROP_FULL)) \<and>
     (trip \<noteq> IMX_TRIP_CRITICAL \<longrightarrow> tmu_set_trip_temp tmu trip temp = (0, tmu))"
  by (simp add: tmu_get_trend_def tmu_set_trip_temp_def const_defs split: option.splits)

text \<open>
  The selector \<^verbatim>\<open>IMX_TRIP_NUM\<close>: at 90000 the zone is above the passive threshold 85000
  minus 10000 but below the critical threshold 200000 minus 10000, and the trend is
  falling.
\<close>

theorem other_selectors_witness:
  "IMX_TRIP_NUM \<noteq> IMX_TRIP_PASSIVE \<and> IMX_TRIP_NUM \<noteq> IMX_TRIP_CRITICAL \<and>
   tmu_get_trend (zone_tmu 90000 85000 200000) IMX_TRIP_NUM THERMAL_TREND_STABLE =
     (0, THERMAL_TREND_DROP_FULL) \<and>
   tmu_get_trend (zone_tmu 90000 85000 200000) IMX_TRIP_PASSIVE THERMAL_TREND_STABLE =
     (0, THERMAL_TREND_RAISE_FULL) \<and>
   tmu_set_trip_temp (zone_tmu 90000 85000 200000) IMX_TRIP_NUM 5 =
     (0, zone_tmu 90000 85000 200000)"
proof -
  have n: "IMX_TRIP_NUM \<noteq> IMX_TRIP_PASSIVE" "IMX_TRIP_NUM \<noteq> IMX_TRIP_CRITICAL"
    by (simp_all add: const_defs)
  have c: "tmu_get_trend (zone_tmu 90000 85000 200000) IMX_TRIP_CRITICAL THERMAL_TREND_STABLE =
      (0, THERMAL_TREND_DROP_FULL)"
    by (simp add: tmu_get_trend_def zone_tmu_def kzalloc_tmu_def const_defs)
  have p: "tmu_get_trend (zone_tmu 90000 85000 200000) IMX_TRIP_PASSIVE THERMAL_TREND_STABLE =
      (0, THERMAL_TREND_RAISE_FULL)"
    by (simp add: tmu_get_trend_def zone_tmu_def kzalloc_tmu_def const_defs)
  show ?thesis
    using other_selectors [OF n(1), of "zone_tmu 90000 85000 200000" THERMAL_TREND_STABLE 5] n c p
    by simp
qed

end
